theory Spec2Isabelle
  imports Main
begin

section \<open>PullRequestSidebarEntry.svelte: the sidebar entry of one pull request\<close>

text \<open>
  The component reads a pull request (its prop), the project of the ambient context and
  the current route path. It forwards a set of props to the generic \<open>SidebarEntry\<close> view,
  fills the \<open>authorAvatars\<close> snippet, and navigates when the entry is pressed.
\<close>

subsection \<open>Values of the host language\<close>

text \<open>
  A JavaScript string is a \<open>string\<close>. An optional or nullable value is an \<open>option\<close>:
  \<open>None\<close> stands for \<open>undefined\<close> and \<open>null\<close>, which \<open>?.\<close>, \<open>||\<close> and the truthiness
  test of \<open>{#if}\<close> do not tell apart. A pull request number is an integer; a \<open>Date\<close> is
  its time value in milliseconds.
\<close>

type_synonym js_number = int
type_synonym Date = int

datatype error = TypeError

datatype js_value = JSString string | JSNumber js_number

text \<open>The decimal digits of a natural number, most significant first.\<close>

function digits :: "nat \<Rightarrow> string" where
  "digits n =
     (if n < 10 then [''0123456789'' ! n]
      else digits (n div 10) @ [''0123456789'' ! (n mod 10)])"
  by pat_completeness auto
termination
  by (relation "measure (\<lambda>n. n)") auto

text \<open>
  \<open>Number::toString\<close> on an integral value: a minus sign for a negative value, then the
  decimal digits. (The engine switches to exponent notation from \<open>10^21\<close> on; pull request
  numbers are far below.)
\<close>

definition Number_toString :: "js_number \<Rightarrow> string" where
  "Number_toString n = (if n < 0 then CHR ''-'' # digits (nat (- n)) else digits (nat n))"

fun ToString :: "js_value \<Rightarrow> string" where
  "ToString (JSString s) = s"
| "ToString (JSNumber n) = Number_toString n"

text \<open>
  A template literal is its literal chunks with the string conversions of its
  substitutions in between: \<open>`/${a}/pull/${b}`\<close> has the chunks \<open>/\<close>, \<open>/pull/\<close> and the
  empty chunk, and the substitutions \<open>a\<close> and \<open>b\<close>.
\<close>

fun TemplateLiteral :: "string list \<Rightarrow> js_value list \<Rightarrow> string" where
  "TemplateLiteral [] es = []"
| "TemplateLiteral (q # qs) [] = q"
| "TemplateLiteral (q # qs) (e # es) = q @ ToString e @ TemplateLiteral qs es"

text \<open>\<open>obj?.field\<close>: \<open>undefined\<close> when \<open>obj\<close> is nullish, the field otherwise.\<close>

definition optional_chain :: "'o option \<Rightarrow> ('o \<Rightarrow> 'v option) \<Rightarrow> 'v option" where
  "optional_chain obj field = (case obj of None \<Rightarrow> None | Some x \<Rightarrow> field x)"

text \<open>\<open>obj.field\<close> on a value that may be nullish: a \<open>TypeError\<close> when it is.\<close>

definition member :: "'o option \<Rightarrow> ('o \<Rightarrow> 'v) \<Rightarrow> error + 'v" where
  "member obj field = (case obj of None \<Rightarrow> Inl TypeError | Some x \<Rightarrow> Inr (field x))"

text \<open>Truthiness of an optional string: \<open>undefined\<close>, \<open>null\<close> and the empty string are falsy.\<close>

definition truthy :: "string option \<Rightarrow> bool" where
  "truthy v = (case v of None \<Rightarrow> False | Some s \<Rightarrow> s \<noteq> [])"

text \<open>\<open>v || d\<close> with a string default: the left operand when it is truthy, else \<open>d\<close>.\<close>

definition logical_or :: "string option \<Rightarrow> string \<Rightarrow> string" where
  "logical_or v d = (case v of None \<Rightarrow> d | Some s \<Rightarrow> if s = [] then d else s)"

text \<open>
  \<open>obj && v\<close> where \<open>obj\<close> is an object reference: an object is truthy, so the result is
  the right operand.
\<close>

definition logical_and_object :: "'o \<Rightarrow> 'v \<Rightarrow> 'v option" where
  "logical_and_object obj v = Some v"

subsection \<open>The data the component reads\<close>

text \<open>
  Modelled from the spec: the declarations of \<open>PullRequest\<close> (with its author) and of
  \<open>Project\<close> are imported by the component and not part of it. The records hold the
  fields the component reads (\<open>number\<close>, \<open>title\<close>, an optional \<open>author\<close> with an optional
  \<open>name\<close> and an optional \<open>gravatarUrl\<close>, an optional \<open>modifiedAt\<close>; the project's \<open>id\<close>,
  named \<open>project_id\<close> here because \<open>id\<close> is the identity function of HOL). Every other
  field of the two objects is in the extension of the record scheme.
\<close>

record Author =
  name :: "string option"
  gravatarUrl :: "string option"

record PullRequest =
  number :: js_number
  title :: string
  author :: "Author option"
  modifiedAt :: "Date option"

record Project =
  project_id :: string

text \<open>
  What the component can see and act on: its prop, the project of the ambient context,
  \<open>$page.url.pathname\<close>, and the navigation service, of which the model keeps the URLs
  passed to \<open>goto\<close>, oldest first.
\<close>

record ('a, 'p) world =
  pullRequest :: "'a PullRequest_scheme"
  project :: "'p Project_scheme"
  pathname :: string
  gotoCalls :: "string list"

text \<open>
  Modelled from the spec: \<open>goto\<close> is the navigation service of the framework, a function
  accepting a URL string whose return value the component does not observe.
\<close>

definition goto :: "string \<Rightarrow> ('a, 'p) world \<Rightarrow> ('a, 'p) world" where
  "goto url w = w\<lparr>gotoCalls := gotoCalls w @ [url]\<rparr>"

subsection \<open>What the component hands to the views it renders\<close>

text \<open>
  Modelled from the spec: the prop declarations of \<open>SidebarEntry\<close> and \<open>AvatarGrouping\<close>
  are imported by the component and not part of it. The records hold the props the
  component passes. \<open>srcUrl\<close> and \<open>lastCommitAt\<close> carry the field as it was read,
  \<open>pullRequestDetails\<close> the value of an \<open>&&\<close>.
\<close>

record Avatar =
  srcUrl :: "string option"
  name :: string

datatype node = AvatarGrouping (avatars: "Avatar list")

record LastCommitDetails =
  authorName :: string
  lastCommitAt :: "Date option"

record PullRequestDetails =
  title :: string

record ('a, 'p) SidebarEntryProps =
  title :: string
  remotes :: "string list"
  local :: bool
  applied :: bool
  lastCommitDetails :: LastCommitDetails
  pullRequestDetails :: "PullRequestDetails option"
  onMouseDown :: "('a, 'p) world \<Rightarrow> ('a, 'p) world"
  selected :: bool
  authorAvatars :: "node list"

subsection \<open>The script of the component\<close>

definition formatPullRequestURL :: "'p Project_scheme \<Rightarrow> js_number \<Rightarrow> string" where
  "formatPullRequestURL proj pullRequestNumber =
     TemplateLiteral [''/'', ''/pull/'', '''']
       [JSString (project_id proj), JSNumber pullRequestNumber]"

definition onMouseDown :: "('a, 'p) world \<Rightarrow> ('a, 'p) world" where
  "onMouseDown w = goto (formatPullRequestURL (project w) (number (pullRequest w))) w"

definition selected :: "('a, 'p) world \<Rightarrow> bool" where
  "selected w = (pathname w = formatPullRequestURL (project w) (number (pullRequest w)))"

subsection \<open>The markup of the component\<close>

text \<open>
  The \<open>authorAvatars\<close> snippet: under the \<open>{#if}\<close> it reads \<open>pullRequest.author.gravatarUrl\<close>
  and \<open>pullRequest.author.name\<close> with a plain member access; the result is the list of
  the nodes the snippet renders.
\<close>

definition authorAvatars :: "'a PullRequest_scheme \<Rightarrow> error + node list" where
  "authorAvatars pr =
     (if truthy (optional_chain (author pr) gravatarUrl) then
        (case member (author pr) gravatarUrl of
           Inl e \<Rightarrow> Inl e
         | Inr src \<Rightarrow>
             (case member (author pr) Author.name of
                Inl e \<Rightarrow> Inl e
              | Inr nm \<Rightarrow>
                  Inr [AvatarGrouping
                         [\<lparr>srcUrl = src, Avatar.name = logical_or nm ''unknown''\<rparr>]]))
      else Inr [])"

text \<open>
  Rendering the component: the props of \<open>SidebarEntry\<close>, with the nodes of the snippet, or
  the error that evaluating them raised.
\<close>

definition PullRequestSidebarEntry ::
    "('a, 'p) world \<Rightarrow> error + ('a, 'p) SidebarEntryProps" where
  "PullRequestSidebarEntry w =
     (case authorAvatars (pullRequest w) of
        Inl e \<Rightarrow> Inl e
      | Inr nodes \<Rightarrow>
          Inr \<lparr>SidebarEntryProps.title = PullRequest.title (pullRequest w),
               remotes = [],
               local = False,
               applied = False,
               lastCommitDetails =
                 \<lparr>authorName =
                    logical_or (optional_chain (author (pullRequest w)) Author.name) ''Unknown'',
                  lastCommitAt = modifiedAt (pullRequest w)\<rparr>,
               pullRequestDetails =
                 logical_and_object (pullRequest w)
                   \<lparr>PullRequestDetails.title = PullRequest.title (pullRequest w)\<rparr>,
               SidebarEntryProps.onMouseDown = onMouseDown,
               SidebarEntryProps.selected = selected w,
               SidebarEntryProps.authorAvatars = nodes\<rparr>)"

subsection \<open>The evaluations of the component\<close>

text \<open>
  Everything the component does is one of four evaluations: rendering, deriving
  \<open>selected\<close>, formatting the URL of its own pull request, and handling a press. Each
  returns what it computed and the world it leaves.
\<close>

datatype operation = Render | DeriveSelected | FormatURL | MouseDown

datatype ('a, 'p) outcome =
    Rendered "error + ('a, 'p) SidebarEntryProps"
  | Derived bool
  | Formatted string
  | Handled

fun perform :: "operation \<Rightarrow> ('a, 'p) world \<Rightarrow> ('a, 'p) outcome \<times> ('a, 'p) world" where
  "perform Render w = (Rendered (PullRequestSidebarEntry w), w)"
| "perform DeriveSelected w = (Derived (selected w), w)"
| "perform FormatURL w =
     (Formatted (formatPullRequestURL (project w) (number (pullRequest w))), w)"
| "perform MouseDown w = (Handled, onMouseDown w)"

fun perform_all :: "operation list \<Rightarrow> ('a, 'p) world \<Rightarrow> ('a, 'p) world" where
  "perform_all [] w = w"
| "perform_all (ev # evs) w = perform_all evs (snd (perform ev w))"

subsection \<open>The specification's own words\<close>

text \<open>
  The path the specification asks for, from its own words: the three segments project
  id, the literal \<open>pull\<close> and the pull request number, in this order, each after a slash.
\<close>

definition spec_pull_request_path :: "string \<Rightarrow> js_number \<Rightarrow> string" where
  "spec_pull_request_path pid n =
     concat (map (\<lambda>segment. CHR ''/'' # segment) [pid, ''pull'', Number_toString n])"

text \<open>A field is present when it has a value, absent when it is \<open>undefined\<close> or \<open>null\<close>.\<close>

definition present :: "'v option \<Rightarrow> bool" where
  "present v = (v \<noteq> None)"

text \<open>
  What the specification says the avatar slot receives: one avatar when \<open>gravatarUrl\<close> is
  present, with the author's name when that is present and \<open>unknown\<close> when it is absent;
  none when \<open>gravatarUrl\<close> is absent.
\<close>

definition spec_avatars :: "'a PullRequest_scheme \<Rightarrow> Avatar list" where
  "spec_avatars pr =
     (case optional_chain (author pr) gravatarUrl of
        None \<Rightarrow> []
      | Some u \<Rightarrow>
          [\<lparr>srcUrl = Some u,
            Avatar.name =
              (case optional_chain (author pr) Author.name of
                 None \<Rightarrow> ''unknown''
               | Some n \<Rightarrow> n)\<rparr>])"

subsection \<open>Concrete inputs\<close>

text \<open>
  The two examples of the specification (Alice's pull request 42 of \<open>proj1\<close>, pull request
  7 without an author), and authors whose name or avatar URL is missing or empty.
\<close>

definition pr_alice :: PullRequest where
  "pr_alice =
     \<lparr>number = 42, PullRequest.title = ''Fix bug'',
      author = Some \<lparr>Author.name = Some ''Alice'', gravatarUrl = Some ''http://x/a.png''\<rparr>,
      modifiedAt = Some 1700000000000\<rparr>"

definition pr_no_author :: PullRequest where
  "pr_no_author =
     \<lparr>number = 7, PullRequest.title = ''No author'', author = None,
      modifiedAt = Some 1700000360000\<rparr>"

definition pr_no_name :: PullRequest where
  "pr_no_name =
     \<lparr>number = 8, PullRequest.title = ''No name'',
      author = Some \<lparr>Author.name = None, gravatarUrl = Some ''http://x/b.png''\<rparr>,
      modifiedAt = None\<rparr>"

definition pr_empty_name :: PullRequest where
  "pr_empty_name =
     \<lparr>number = 9, PullRequest.title = ''Empty name'',
      author = Some \<lparr>Author.name = Some '''', gravatarUrl = Some ''http://x/c.png''\<rparr>,
      modifiedAt = None\<rparr>"

definition pr_empty_gravatar :: PullRequest where
  "pr_empty_gravatar =
     \<lparr>number = 10, PullRequest.title = ''Empty avatar URL'',
      author = Some \<lparr>Author.name = Some ''Alice'', gravatarUrl = Some ''''\<rparr>,
      modifiedAt = None\<rparr>"

definition pr_no_gravatar :: PullRequest where
  "pr_no_gravatar =
     \<lparr>number = 11, PullRequest.title = ''No avatar URL'',
      author = Some \<lparr>Author.name = Some ''Alice'', gravatarUrl = None\<rparr>,
      modifiedAt = None\<rparr>"

text \<open>A world in which \<open>proj1\<close> is the project and the route is that of pull request 42.\<close>

definition world_of :: "PullRequest \<Rightarrow> (unit, unit) world" where
  "world_of pr =
     \<lparr>pullRequest = pr, project = \<lparr>project_id = ''proj1''\<rparr>,
      pathname = ''/proj1/pull/42'', gotoCalls = []\<rparr>"

text \<open>
  Two worlds of a project that has one more field than its id: they differ in that field
  and in the navigations made so far.
\<close>

definition world_a :: "(unit, nat) world" where
  "world_a =
     \<lparr>pullRequest = pr_alice, project = \<lparr>project_id = ''proj1'', \<dots> = 1\<rparr>,
      pathname = ''/proj1/pull/42'', gotoCalls = []\<rparr>"

definition world_b :: "(unit, nat) world" where
  "world_b =
     \<lparr>pullRequest = pr_alice, project = \<lparr>project_id = ''proj1'', \<dots> = 2\<rparr>,
      pathname = ''/proj1/pull/42'', gotoCalls = [''/proj1/board'']\<rparr>"

section \<open>Properties\<close>

subsection \<open>What the definitions compute\<close>

lemma formatPullRequestURL_append:
  "formatPullRequestURL proj n = ''/'' @ project_id proj @ ''/pull/'' @ Number_toString n"
  by (simp add: formatPullRequestURL_def)

lemma Number_toString_42: "Number_toString 42 = ''42''"
  by (simp add: Number_toString_def)

lemma formatPullRequestURL_example_1:
  "formatPullRequestURL \<lparr>project_id = ''proj1''\<rparr> 42 = ''/proj1/pull/42''"
  by (simp add: formatPullRequestURL_append Number_toString_def)

lemma formatPullRequestURL_example_2:
  "formatPullRequestURL \<lparr>project_id = ''proj2''\<rparr> 7 = ''/proj2/pull/7''"
  by (simp add: formatPullRequestURL_append Number_toString_def)

text \<open>
  The snippet never reaches the error branch of its two member accesses: the \<open>{#if}\<close>
  before them is false when there is no author.
\<close>

lemma authorAvatars_cases:
  "authorAvatars pr =
     Inr (case author pr of
            None \<Rightarrow> []
          | Some a \<Rightarrow>
              (case gravatarUrl a of
                 None \<Rightarrow> []
               | Some u \<Rightarrow>
                   if u = [] then []
                   else [AvatarGrouping
                           [\<lparr>srcUrl = Some u,
                             Avatar.name = logical_or (Author.name a) ''unknown''\<rparr>]]))"
  by (simp add: authorAvatars_def truthy_def optional_chain_def member_def
      split: option.splits)

lemma PullRequestSidebarEntry_props:
  "\<exists>nodes. authorAvatars (pullRequest w) = Inr nodes \<and>
     PullRequestSidebarEntry w =
       Inr \<lparr>SidebarEntryProps.title = PullRequest.title (pullRequest w),
            remotes = [],
            local = False,
            applied = False,
            lastCommitDetails =
              \<lparr>authorName =
                 logical_or (optional_chain (author (pullRequest w)) Author.name) ''Unknown'',
               lastCommitAt = modifiedAt (pullRequest w)\<rparr>,
            pullRequestDetails =
              Some \<lparr>PullRequestDetails.title = PullRequest.title (pullRequest w)\<rparr>,
            SidebarEntryProps.onMouseDown = onMouseDown,
            SidebarEntryProps.selected = selected w,
            SidebarEntryProps.authorAvatars = nodes\<rparr>"
  by (simp add: PullRequestSidebarEntry_def authorAvatars_cases logical_and_object_def)

lemma perform_frame:
  "pullRequest (snd (perform ev w)) = pullRequest w \<and>
   project (snd (perform ev w)) = project w \<and>
   pathname (snd (perform ev w)) = pathname w"
  by (cases ev) (simp_all add: onMouseDown_def goto_def)

lemma perform_all_frame:
  "pullRequest (perform_all evs w) = pullRequest w \<and>
   project (perform_all evs w) = project w \<and>
   pathname (perform_all evs w) = pathname w"
  by (induction evs arbitrary: w) (simp_all add: perform_frame)

subsection \<open>The examples of the specification\<close>

lemma example_alice:
  "PullRequestSidebarEntry (world_of pr_alice) =
     Inr \<lparr>SidebarEntryProps.title = ''Fix bug'', remotes = [], local = False, applied = False,
          lastCommitDetails = \<lparr>authorName = ''Alice'', lastCommitAt = Some 1700000000000\<rparr>,
          pullRequestDetails = Some \<lparr>PullRequestDetails.title = ''Fix bug''\<rparr>,
          SidebarEntryProps.onMouseDown = onMouseDown,
          SidebarEntryProps.selected = True,
          SidebarEntryProps.authorAvatars =
            [AvatarGrouping [\<lparr>srcUrl = Some ''http://x/a.png'', Avatar.name = ''Alice''\<rparr>]]\<rparr>"
  by (simp add: PullRequestSidebarEntry_def authorAvatars_cases logical_and_object_def
      logical_or_def optional_chain_def selected_def formatPullRequestURL_append
      Number_toString_def world_of_def pr_alice_def)

lemma example_no_author:
  "PullRequestSidebarEntry (world_of pr_no_author) =
     Inr \<lparr>SidebarEntryProps.title = ''No author'', remotes = [], local = False,
          applied = False,
          lastCommitDetails = \<lparr>authorName = ''Unknown'', lastCommitAt = Some 1700000360000\<rparr>,
          pullRequestDetails = Some \<lparr>PullRequestDetails.title = ''No author''\<rparr>,
          SidebarEntryProps.onMouseDown = onMouseDown,
          SidebarEntryProps.selected = False,
          SidebarEntryProps.authorAvatars = []\<rparr>"
  by (simp add: PullRequestSidebarEntry_def authorAvatars_cases logical_and_object_def
      logical_or_def optional_chain_def selected_def formatPullRequestURL_append
      Number_toString_def world_of_def pr_no_author_def)

lemma onMouseDown_example:
  "gotoCalls (onMouseDown (world_of pr_no_author)) = [''/proj1/pull/7'']"
  by (simp add: onMouseDown_def goto_def formatPullRequestURL_append world_of_def
      pr_no_author_def Number_toString_def)

text \<open>No normalisation: the route with a trailing slash does not select the entry.\<close>

lemma selected_trailing_slash:
  "\<not> selected
     (w\<lparr>pathname := formatPullRequestURL (project w) (number (pullRequest w)) @ ''/''\<rparr>)"
  by (simp add: selected_def)

subsection \<open>The claims\<close>

text \<open>
  C1. For every project and every pull request number, the URL that
  \<open>formatPullRequestURL\<close> computes is the string \<open>/{project.id}/pull/{number}\<close>: a slash
  and the project id, a slash and the literal \<open>pull\<close>, a slash and the number, in this
  order and with nothing else.
\<close>

theorem formatPullRequestURL_exact:
  "formatPullRequestURL proj n = spec_pull_request_path (project_id proj) n \<and>
   formatPullRequestURL proj n = ''/'' @ project_id proj @ ''/pull/'' @ Number_toString n"
  by (simp add: formatPullRequestURL_def spec_pull_request_path_def)

text \<open>
  C2. The derived \<open>selected\<close> flag, and the \<open>selected\<close> prop handed to the entry view, are
  true if and only if the current route path is the very string that
  \<open>formatPullRequestURL\<close> computes for the project and the number of the pull request.
\<close>

theorem selected_iff_path_is_url:
  "(selected w \<longleftrightarrow>
      pathname w = formatPullRequestURL (project w) (number (pullRequest w))) \<and>
   (\<exists>props. PullRequestSidebarEntry w = Inr props \<and>
      (SidebarEntryProps.selected props \<longleftrightarrow>
         pathname w = formatPullRequestURL (project w) (number (pullRequest w))))"
  using PullRequestSidebarEntry_props [of w] by (auto simp: selected_def)

text \<open>
  C3, as the code has it. The \<open>{#if}\<close> tests the truthiness of \<open>gravatarUrl\<close>, and the name
  falls back with \<open>||\<close>: when \<open>gravatarUrl\<close> is present and not the empty string, the
  snippet renders one avatar group of exactly one avatar, whose \<open>srcUrl\<close> is
  \<open>gravatarUrl\<close> and whose \<open>name\<close> is the author's name when that is present and not
  empty, and the lowercase \<open>unknown\<close> otherwise; when there is no author, or
  \<open>gravatarUrl\<close> is absent or the empty string, the snippet renders nothing.
\<close>

theorem authorAvatars_truthy_gravatar:
  "(\<forall>a u. author pr = Some a \<and> gravatarUrl a = Some u \<and> u \<noteq> [] \<longrightarrow>
      authorAvatars pr =
        Inr [AvatarGrouping
               [\<lparr>srcUrl = gravatarUrl a,
                 Avatar.name =
                   (case Author.name a of
                      None \<Rightarrow> ''unknown''
                    | Some n \<Rightarrow> if n = [] then ''unknown'' else n)\<rparr>]]) \<and>
   (author pr = None \<or>
    (\<exists>a. author pr = Some a \<and> (gravatarUrl a = None \<or> gravatarUrl a = Some [])) \<longrightarrow>
      authorAvatars pr = Inr [])"
  by (auto simp: authorAvatars_cases logical_or_def split: option.splits)

theorem authorAvatars_truthy_gravatar_witness:
  "authorAvatars pr_alice =
     Inr [AvatarGrouping [\<lparr>srcUrl = Some ''http://x/a.png'', Avatar.name = ''Alice''\<rparr>]] \<and>
   authorAvatars pr_no_name =
     Inr [AvatarGrouping [\<lparr>srcUrl = Some ''http://x/b.png'', Avatar.name = ''unknown''\<rparr>]] \<and>
   authorAvatars pr_no_author = Inr [] \<and>
   authorAvatars pr_no_gravatar = Inr [] \<and>
   authorAvatars pr_empty_gravatar = Inr []"
proof -
  let ?alice = "\<lparr>Author.name = Some ''Alice'', gravatarUrl = Some ''http://x/a.png''\<rparr>"
  let ?nameless = "\<lparr>Author.name = None, gravatarUrl = Some ''http://x/b.png''\<rparr>"
  have a: "author pr_alice = Some ?alice \<and> gravatarUrl ?alice = Some ''http://x/a.png'' \<and>
      ''http://x/a.png'' \<noteq> []"
    by (simp add: pr_alice_def)
  have b: "author pr_no_name = Some ?nameless \<and>
      gravatarUrl ?nameless = Some ''http://x/b.png'' \<and> ''http://x/b.png'' \<noteq> []"
    by (simp add: pr_no_name_def)
  have c: "author pr_no_author = None \<or>
      (\<exists>a. author pr_no_author = Some a \<and> (gravatarUrl a = None \<or> gravatarUrl a = Some []))"
    by (simp add: pr_no_author_def)
  have d: "author pr_no_gravatar = None \<or>
      (\<exists>a. author pr_no_gravatar = Some a \<and>
         (gravatarUrl a = None \<or> gravatarUrl a = Some []))"
    by (simp add: pr_no_gravatar_def)
  have e: "author pr_empty_gravatar = None \<or>
      (\<exists>a. author pr_empty_gravatar = Some a \<and>
         (gravatarUrl a = None \<or> gravatarUrl a = Some []))"
    by (simp add: pr_empty_gravatar_def)
  from authorAvatars_truthy_gravatar [of pr_alice, THEN conjunct1, rule_format, OF a]
    authorAvatars_truthy_gravatar [of pr_no_name, THEN conjunct1, rule_format, OF b]
    authorAvatars_truthy_gravatar [of pr_no_author, THEN conjunct2, rule_format, OF c]
    authorAvatars_truthy_gravatar [of pr_no_gravatar, THEN conjunct2, rule_format, OF d]
    authorAvatars_truthy_gravatar [of pr_empty_gravatar, THEN conjunct2, rule_format, OF e]
  show ?thesis by simp
qed

text \<open>
  C3 as it is written fails at two inputs. An author whose \<open>gravatarUrl\<close> is the empty
  string has a \<open>gravatarUrl\<close> that is present, the claim supplies one avatar with that
  empty \<open>srcUrl\<close>, and the snippet renders nothing. An author whose \<open>name\<close> is the empty
  string has a \<open>name\<close> that is present, the claim names the avatar with the empty
  string, and the snippet names it \<open>unknown\<close>.
\<close>

theorem authorAvatars_presence_counterexample:
  "present (optional_chain (author pr_empty_gravatar) gravatarUrl) \<and>
   authorAvatars pr_empty_gravatar = Inr [] \<and>
   spec_avatars pr_empty_gravatar = [\<lparr>srcUrl = Some '''', Avatar.name = ''Alice''\<rparr>] \<and>
   present (optional_chain (author pr_empty_name) Author.name) \<and>
   authorAvatars pr_empty_name =
     Inr [AvatarGrouping [\<lparr>srcUrl = Some ''http://x/c.png'', Avatar.name = ''unknown''\<rparr>]] \<and>
   spec_avatars pr_empty_name = [\<lparr>srcUrl = Some ''http://x/c.png'', Avatar.name = ''''\<rparr>] \<and>
   authorAvatars pr_empty_gravatar \<noteq> Inr [AvatarGrouping (spec_avatars pr_empty_gravatar)] \<and>
   authorAvatars pr_empty_name \<noteq> Inr [AvatarGrouping (spec_avatars pr_empty_name)]"
  by (simp add: authorAvatars_cases spec_avatars_def present_def optional_chain_def
      logical_or_def pr_empty_gravatar_def pr_empty_name_def)

text \<open>
  C4. When the pull request has no author, and when it has an author without a name,
  rendering succeeds and the author label of the last commit descriptor handed to the
  entry view is the capitalised \<open>Unknown\<close>.
\<close>

theorem lastCommit_author_Unknown:
  assumes "author (pullRequest w) = None \<or>
           (\<exists>a. author (pullRequest w) = Some a \<and> Author.name a = None)"
  shows "\<exists>props. PullRequestSidebarEntry w = Inr props \<and>
           authorName (lastCommitDetails props) = ''Unknown''"
proof -
  from assms have "optional_chain (author (pullRequest w)) Author.name = None"
    by (auto simp: optional_chain_def)
  then have "logical_or (optional_chain (author (pullRequest w)) Author.name) ''Unknown''
      = ''Unknown''"
    by (simp add: logical_or_def)
  with PullRequestSidebarEntry_props [of w] show ?thesis
    by auto
qed

theorem lastCommit_author_Unknown_witness:
  "author (pullRequest (world_of pr_no_author)) = None \<and>
   (\<exists>props. PullRequestSidebarEntry (world_of pr_no_author) = Inr props \<and>
      authorName (lastCommitDetails props) = ''Unknown'') \<and>
   (\<exists>a. author (pullRequest (world_of pr_no_name)) = Some a \<and> Author.name a = None) \<and>
   (\<exists>props. PullRequestSidebarEntry (world_of pr_no_name) = Inr props \<and>
      authorName (lastCommitDetails props) = ''Unknown'')"
proof -
  have h1: "author (pullRequest (world_of pr_no_author)) = None"
    by (simp add: world_of_def pr_no_author_def)
  have h2: "\<exists>a. author (pullRequest (world_of pr_no_name)) = Some a \<and> Author.name a = None"
    by (simp add: world_of_def pr_no_name_def)
  from h1 h2 lastCommit_author_Unknown [of "world_of pr_no_author", OF disjI1, OF h1]
    lastCommit_author_Unknown [of "world_of pr_no_name", OF disjI2, OF h2]
  show ?thesis by blast
qed

text \<open>
  C5. The handler of a press leaves the world as it was but for one more call of the
  navigation service, whose argument is \<open>/{project.id}/pull/{number}\<close> for the project of
  the context and the number of the pull request; and the handler is what the component
  passes to the entry view as \<open>onMouseDown\<close>. (Which presses reach the handler is decided
  by the entry view.)
\<close>

theorem onMouseDown_navigates:
  "onMouseDown w =
     w\<lparr>gotoCalls := gotoCalls w @
         [''/'' @ project_id (project w) @ ''/pull/'' @
          Number_toString (number (pullRequest w))]\<rparr> \<and>
   (\<exists>props. PullRequestSidebarEntry w = Inr props \<and>
      SidebarEntryProps.onMouseDown props = onMouseDown)"
  using PullRequestSidebarEntry_props [of w]
  by (auto simp: onMouseDown_def goto_def formatPullRequestURL_append)

text \<open>
  C6. For every pull request, rendering succeeds and the props handed to the entry view
  have the title of the pull request, no remotes, \<open>local\<close> and \<open>applied\<close> both false, a
  last commit descriptor whose \<open>lastCommitAt\<close> is the \<open>modifiedAt\<close> of the pull request,
  and the pull request descriptor \<open>{title: pullRequest.title}\<close>.
\<close>

theorem SidebarEntry_forwarded_props:
  "\<exists>props. PullRequestSidebarEntry w = Inr props \<and>
     SidebarEntryProps.title props = PullRequest.title (pullRequest w) \<and>
     remotes props = [] \<and>
     local props = False \<and>
     applied props = False \<and>
     lastCommitAt (lastCommitDetails props) = modifiedAt (pullRequest w) \<and>
     pullRequestDetails props =
       Some \<lparr>PullRequestDetails.title = PullRequest.title (pullRequest w)\<rparr>"
  using PullRequestSidebarEntry_props [of w] by auto

text \<open>
  C7. Whatever the pull request, with or without author, name, avatar URL and
  \<open>modifiedAt\<close>: rendering returns props, the snippet returns its nodes, and no
  evaluation of the component ends in an error.
\<close>

theorem component_never_throws:
  "(\<exists>props. PullRequestSidebarEntry w = Inr props) \<and>
   (\<exists>nodes. authorAvatars (pullRequest w) = Inr nodes) \<and>
   (\<forall>ev e. fst (perform ev w) \<noteq> Rendered (Inl e))"
proof -
  from PullRequestSidebarEntry_props [of w]
  have r: "\<exists>props. PullRequestSidebarEntry w = Inr props"
    and s: "\<exists>nodes. authorAvatars (pullRequest w) = Inr nodes"
    by auto
  have "fst (perform ev w) \<noteq> Rendered (Inl e)" for ev e
    using r by (cases ev) auto
  with r s show ?thesis by blast
qed

text \<open>
  C8. No evaluation of the component, and no sequence of them, changes the pull request
  or the project: after rendering, deriving \<open>selected\<close>, formatting the URL or handling a
  press, both objects are what they were, in every field.
\<close>

theorem perform_never_mutates_inputs:
  "pullRequest (snd (perform ev w)) = pullRequest w \<and>
   project (snd (perform ev w)) = project w \<and>
   pullRequest (perform_all evs w) = pullRequest w \<and>
   project (perform_all evs w) = project w"
  by (simp add: perform_frame perform_all_frame)

text \<open>
  C9. The fallbacks test truthiness. With an author whose name is the empty string the
  author label of the last commit is \<open>Unknown\<close> and, when an avatar is rendered, its name
  is \<open>unknown\<close>; with an author whose \<open>gravatarUrl\<close> is the empty string the snippet
  renders nothing, exactly what it renders for the same pull request without a
  \<open>gravatarUrl\<close>.
\<close>

theorem fallbacks_are_falsy:
  "(\<forall>a. author (pullRequest w) = Some a \<and> Author.name a = Some [] \<longrightarrow>
      (\<exists>props. PullRequestSidebarEntry w = Inr props \<and>
         authorName (lastCommitDetails props) = ''Unknown'')) \<and>
   (\<forall>a u. author (pullRequest w) = Some a \<and> Author.name a = Some [] \<and>
       gravatarUrl a = Some u \<and> u \<noteq> [] \<longrightarrow>
      authorAvatars (pullRequest w) =
        Inr [AvatarGrouping [\<lparr>srcUrl = Some u, Avatar.name = ''unknown''\<rparr>]]) \<and>
   (\<forall>a. author (pullRequest w) = Some a \<and> gravatarUrl a = Some [] \<longrightarrow>
      authorAvatars (pullRequest w) = Inr [] \<and>
      authorAvatars (pullRequest w) =
        authorAvatars ((pullRequest w)\<lparr>author := Some (a\<lparr>gravatarUrl := None\<rparr>)\<rparr>))"
proof (intro conjI allI impI)
  fix a
  assume "author (pullRequest w) = Some a \<and> Author.name a = Some []"
  then have "logical_or (optional_chain (author (pullRequest w)) Author.name) ''Unknown''
      = ''Unknown''"
    by (simp add: logical_or_def optional_chain_def)
  with PullRequestSidebarEntry_props [of w]
  show "\<exists>props. PullRequestSidebarEntry w = Inr props \<and>
      authorName (lastCommitDetails props) = ''Unknown''"
    by auto
next
  fix a u
  assume "author (pullRequest w) = Some a \<and> Author.name a = Some [] \<and>
      gravatarUrl a = Some u \<and> u \<noteq> []"
  then show "authorAvatars (pullRequest w) =
      Inr [AvatarGrouping [\<lparr>srcUrl = Some u, Avatar.name = ''unknown''\<rparr>]]"
    by (simp add: authorAvatars_cases logical_or_def)
next
  fix a
  assume "author (pullRequest w) = Some a \<and> gravatarUrl a = Some []"
  then show "authorAvatars (pullRequest w) = Inr []"
    by (simp add: authorAvatars_cases)
next
  fix a
  assume "author (pullRequest w) = Some a \<and> gravatarUrl a = Some []"
  then show "authorAvatars (pullRequest w) =
      authorAvatars ((pullRequest w)\<lparr>author := Some (a\<lparr>gravatarUrl := None\<rparr>)\<rparr>)"
    by (simp add: authorAvatars_cases)
qed

theorem fallbacks_are_falsy_witness:
  "(\<exists>props. PullRequestSidebarEntry (world_of pr_empty_name) = Inr props \<and>
      authorName (lastCommitDetails props) = ''Unknown'') \<and>
   authorAvatars pr_empty_name =
     Inr [AvatarGrouping [\<lparr>srcUrl = Some ''http://x/c.png'', Avatar.name = ''unknown''\<rparr>]] \<and>
   authorAvatars pr_empty_gravatar = Inr [] \<and>
   authorAvatars pr_empty_gravatar =
     authorAvatars
       (pr_empty_gravatar
          \<lparr>author := Some \<lparr>Author.name = Some ''Alice'', gravatarUrl = None\<rparr>\<rparr>)"
proof -
  let ?n = "\<lparr>Author.name = Some '''', gravatarUrl = Some ''http://x/c.png''\<rparr>"
  let ?g = "\<lparr>Author.name = Some ''Alice'', gravatarUrl = Some ''''\<rparr>"
  have pn: "pullRequest (world_of pr_empty_name) = pr_empty_name"
    and pg: "pullRequest (world_of pr_empty_gravatar) = pr_empty_gravatar"
    by (simp_all add: world_of_def)
  have h1: "author (pullRequest (world_of pr_empty_name)) = Some ?n \<and>
      Author.name ?n = Some []"
    by (simp add: world_of_def pr_empty_name_def)
  have h2: "author (pullRequest (world_of pr_empty_name)) = Some ?n \<and>
      Author.name ?n = Some [] \<and> gravatarUrl ?n = Some ''http://x/c.png'' \<and>
      ''http://x/c.png'' \<noteq> []"
    by (simp add: world_of_def pr_empty_name_def)
  have h3: "author (pullRequest (world_of pr_empty_gravatar)) = Some ?g \<and>
      gravatarUrl ?g = Some []"
    by (simp add: world_of_def pr_empty_gravatar_def)
  note t1 = fallbacks_are_falsy [of "world_of pr_empty_name", THEN conjunct1, rule_format, OF h1]
  note t2 = fallbacks_are_falsy [of "world_of pr_empty_name", THEN conjunct2, THEN conjunct1,
      rule_format, OF h2]
  note t3 = fallbacks_are_falsy [of "world_of pr_empty_gravatar", THEN conjunct2,
      THEN conjunct2, rule_format, OF h3]
  from t1 t2 t3 show ?thesis
    by (auto simp: pn pg)
qed

text \<open>
  C10. The URL, the \<open>selected\<close> flag and everything handed to the entry view, avatars
  included, are determined by the pull request, the id of the project and the current
  route path: two worlds that agree on these three give the same results, whatever else
  differs between them (the other fields of the project, the navigations made so far).
\<close>

theorem component_deterministic:
  assumes "pullRequest w1 = pullRequest w2"
    and "project_id (project w1) = project_id (project w2)"
    and "pathname w1 = pathname w2"
  shows "formatPullRequestURL (project w1) (number (pullRequest w1)) =
           formatPullRequestURL (project w2) (number (pullRequest w2)) \<and>
         selected w1 = selected w2 \<and>
         PullRequestSidebarEntry w1 = PullRequestSidebarEntry w2"
proof -
  have u: "formatPullRequestURL (project w1) (number (pullRequest w1)) =
      formatPullRequestURL (project w2) (number (pullRequest w2))"
    using assms by (simp add: formatPullRequestURL_append)
  have s: "selected w1 = selected w2"
    using assms u by (simp add: selected_def)
  have "PullRequestSidebarEntry w1 = PullRequestSidebarEntry w2"
    using assms(1) s by (simp add: PullRequestSidebarEntry_def authorAvatars_cases)
  with u s show ?thesis by simp
qed

theorem component_deterministic_witness:
  "world_a \<noteq> world_b \<and>
   formatPullRequestURL (project world_a) (number (pullRequest world_a)) =
     formatPullRequestURL (project world_b) (number (pullRequest world_b)) \<and>
   selected world_a = selected world_b \<and>
   PullRequestSidebarEntry world_a = PullRequestSidebarEntry world_b"
proof -
  have h1: "pullRequest world_a = pullRequest world_b"
    by (simp add: world_a_def world_b_def)
  have h2: "project_id (project world_a) = project_id (project world_b)"
    by (simp add: world_a_def world_b_def)
  have h3: "pathname world_a = pathname world_b"
    by (simp add: world_a_def world_b_def)
  have "world_a \<noteq> world_b"
    by (simp add: world_a_def world_b_def)
  with component_deterministic [OF h1 h2 h3] show ?thesis by simp
qed

end
